theory Spec2Isabelle
  imports Complex_Main
begin

section \<open>Data model (types.ts, src/unnamed/part_000)\<close>

text \<open>
  JavaScript numbers are modelled as real numbers: the properties below are about which
  formula is applied to which captured values, not about the rounding of IEEE doubles.
  Strings are byte lists; the Chinese literals of the source are written as their UTF-8
  bytes.
\<close>

datatype LayerType = TEXT | STICKER

datatype TextAlign = AlignLeft | AlignCenter | AlignRight

text \<open>
  A value of \<open>FontStyle\<close> is a JavaScript style object. The interface \<open>FontStyle\<close> asks for
  all nine fields and \<open>Partial<FontStyle>\<close> for any of them, so every field is optional
  here and \<open>None\<close> is an absent field: \<open>updateLayerStyle\<close> builds its result with the
  object spread, which at run time can produce an object with fewer fields than the
  interface declares.
\<close>

record FontStyle =
  fontFamily :: "string option"
  fontSize :: "real option"
  color :: "string option"
  backgroundColor :: "string option"
  fontWeight :: "string option"
  textAlign :: "TextAlign option"
  padding :: "real option"
  borderRadius :: "real option"
  lineHeight :: "real option"

text \<open>
  \<open>interface Layer\<close>. The fields \<open>id, type, x, y, width, height, rotation\<close> carry the
  prefix \<open>layer_\<close>; \<open>style\<close> is the optional field \<open>style?: FontStyle\<close>.
\<close>

record Layer =
  layer_id :: string
  layer_type :: LayerType
  layer_x :: real
  layer_y :: real
  layer_width :: real
  layer_height :: real
  layer_rotation :: real
  content :: string
  style :: "FontStyle option"

text \<open>
  \<open>Partial<Layer>\<close>: \<open>None\<close> is a key that the update object does not have. The key
  \<open>style\<close> may be present with the value \<open>undefined\<close> (\<open>Some None\<close>).
\<close>

record LayerPartial =
  p_id :: "string option"
  p_type :: "LayerType option"
  p_x :: "real option"
  p_y :: "real option"
  p_width :: "real option"
  p_height :: "real option"
  p_rotation :: "real option"
  p_content :: "string option"
  p_style :: "FontStyle option option"

text \<open>
  \<open>interface AspectRatio\<close> and \<open>interface BackgroundConfig\<close>; their fields carry the
  prefixes \<open>ar_\<close> and \<open>bg_\<close>.
\<close>

record AspectRatio =
  ar_name :: string
  ar_width :: real
  ar_height :: real
  ar_label :: string
  ar_icon :: string

record BackgroundConfig =
  bg_scale :: real
  bg_x :: real
  bg_y :: real
  bg_filter :: string

section \<open>Object spread\<close>

definition override :: "'a \<Rightarrow> 'a option \<Rightarrow> 'a" where
  "override old new = (case new of None \<Rightarrow> old | Some v \<Rightarrow> v)"

definition override_opt :: "'a option \<Rightarrow> 'a option \<Rightarrow> 'a option" where
  "override_opt old new = (case new of None \<Rightarrow> old | Some v \<Rightarrow> Some v)"

definition emptyStyle :: FontStyle where
  "emptyStyle = \<lparr> fontFamily = None, fontSize = None, color = None,
     backgroundColor = None, fontWeight = None, textAlign = None, padding = None,
     borderRadius = None, lineHeight = None \<rparr>"

text \<open>\<open>{ ...base, ...styleUpdates }\<close>; spreading \<open>undefined\<close> contributes no field.\<close>

definition mergeStyle :: "FontStyle option \<Rightarrow> FontStyle \<Rightarrow> FontStyle" where
  "mergeStyle base upd =
     (let b = (case base of None \<Rightarrow> emptyStyle | Some s \<Rightarrow> s) in
      \<lparr> fontFamily = override_opt (fontFamily b) (fontFamily upd),
        fontSize = override_opt (fontSize b) (fontSize upd),
        color = override_opt (color b) (color upd),
        backgroundColor = override_opt (backgroundColor b) (backgroundColor upd),
        fontWeight = override_opt (fontWeight b) (fontWeight upd),
        textAlign = override_opt (textAlign b) (textAlign upd),
        padding = override_opt (padding b) (padding upd),
        borderRadius = override_opt (borderRadius b) (borderRadius upd),
        lineHeight = override_opt (lineHeight b) (lineHeight upd) \<rparr>)"

text \<open>\<open>{ ...l, ...updates }\<close>\<close>

definition mergeLayer :: "Layer \<Rightarrow> LayerPartial \<Rightarrow> Layer" where
  "mergeLayer l u =
     \<lparr> layer_id = override (layer_id l) (p_id u),
       layer_type = override (layer_type l) (p_type u),
       layer_x = override (layer_x l) (p_x u),
       layer_y = override (layer_y l) (p_y u),
       layer_width = override (layer_width l) (p_width u),
       layer_height = override (layer_height l) (p_height u),
       layer_rotation = override (layer_rotation l) (p_rotation u),
       content = override (content l) (p_content u),
       style = override (style l) (p_style u) \<rparr>"

definition noUpdates :: LayerPartial where
  "noUpdates = \<lparr> p_id = None, p_type = None, p_x = None, p_y = None, p_width = None,
     p_height = None, p_rotation = None, p_content = None, p_style = None \<rparr>"

section \<open>The application state (App.tsx, src/unnamed/part_002)\<close>

text \<open>
  The source file holds two versions of the component \<open>App\<close>. The definitions follow
  the first one; where the second one differs in what a property below is about, it
  is modelled beside it under a name that ends in \<open>_2\<close>.
\<close>

datatype Tab = Tab_layout | Tab_filter | Tab_text | Tab_sticker

text \<open>
  The \<open>useState\<close> cells and refs of \<open>App\<close>. \<open>imageSrc\<close> is the cell \<open>image\<close>;
  \<open>workspaceRef\<close> tells whether \<open>workspaceRef.current\<close> is set; \<open>fontCssRef\<close> is
  \<open>fontCssRef.current\<close>.
\<close>

record AppState =
  imageSrc :: "string option"
  layers :: "Layer list"
  selectedLayerId :: "string option"
  aspectRatio :: AspectRatio
  originalSize :: "(real \<times> real) option"
  activeTab :: "Tab option"
  bgConfig :: BackgroundConfig
  isExporting :: bool
  canvasScale :: real
  isDarkMode :: bool
  isMobileSheetOpen :: bool
  isMobile :: bool
  workspaceRef :: bool
  fontCssRef :: string

text \<open>
  The options object handed to \<open>toPng\<close>: \<open>cfg_width\<close> and \<open>cfg_height\<close> are its
  \<open>width\<close> and \<open>height\<close>, \<open>style_transform\<close> and \<open>style_transformOrigin\<close> the fields of its
  \<open>style\<close>, \<open>fetch_mode\<close> and \<open>fetch_credentials\<close> those of its \<open>fetchRequestInit\<close>;
  \<open>cacheBust\<close> is absent from \<open>commonConfig\<close> and set by each call.
\<close>

record ExportConfig =
  skipAutoScale :: bool
  pixelRatio :: real
  cfg_width :: real
  cfg_height :: real
  canvasWidth :: real
  canvasHeight :: real
  fontEmbedCSS :: string
  style_transform :: string
  style_transformOrigin :: string
  fetch_mode :: string
  fetch_credentials :: string
  cacheBust :: "bool option"

text \<open>
  What a handler does besides updating the state, in the order it does it.
  \<open>ToPng sel cfg\<close> is a call of \<open>toPng\<close> on the workspace element with the options
  \<open>cfg\<close>, made while the selection cell holds \<open>sel\<close>. \<open>Download now url\<close> is the click on
  a link to \<open>url\<close> whose file name is built from \<open>Date.now()\<close>.
\<close>

datatype effect =
    Alert string
  | ConsoleError
  | ConsoleWarn
  | ToPng "string option" ExportConfig
  | Download nat string

definition INITIAL_TEXT_STYLE :: FontStyle where
  "INITIAL_TEXT_STYLE = \<lparr> fontFamily = Some ''\"Noto Sans SC\", sans-serif'',
     fontSize = Some 42, color = Some ''#ffffff'',
     backgroundColor = Some ''rgba(0,0,0,0)'', fontWeight = Some ''bold'',
     textAlign = Some AlignCenter, padding = Some 10, borderRadius = Some 0,
     lineHeight = Some (12 / 10) \<rparr>"

definition INITIAL_BG_CONFIG :: BackgroundConfig where
  "INITIAL_BG_CONFIG = \<lparr> bg_scale = 1, bg_x = 0, bg_y = 0, bg_filter = ''none'' \<rparr>"

text \<open>The alert text of \<open>addTextLayer\<close> and \<open>addStickerLayer\<close> ("upload an image first").\<close>

definition ALERT_UPLOAD_FIRST :: string where
  "ALERT_UPLOAD_FIRST = [CHR 0xE8, CHR 0xAF, CHR 0xB7, CHR 0xE5, CHR 0x85, CHR 0x88,
     CHR 0xE4, CHR 0xB8, CHR 0x8A, CHR 0xE4, CHR 0xBC, CHR 0xA0, CHR 0xE5, CHR 0x9B,
     CHR 0xBE, CHR 0xE7, CHR 0x89, CHR 0x87]"

text \<open>The content of a new text layer ("double-click to edit the text").\<close>

definition NEW_TEXT_CONTENT :: string where
  "NEW_TEXT_CONTENT = [CHR 0xE5, CHR 0x8F, CHR 0x8C, CHR 0xE5, CHR 0x87, CHR 0xBB,
     CHR 0xE7, CHR 0xBC, CHR 0x96, CHR 0xE8, CHR 0xBE, CHR 0x91, CHR 0xE6, CHR 0x96,
     CHR 0x87, CHR 0xE6, CHR 0x9C, CHR 0xAC]"

text \<open>The label of the frame taken from the image ("original").\<close>

definition LABEL_ORIGINAL :: string where
  "LABEL_ORIGINAL = [CHR 0xE5, CHR 0x8E, CHR 0x9F, CHR 0xE5, CHR 0x9B, CHR 0xBE]"

text \<open>\<open>!image\<close>: \<open>null\<close> and the empty string are falsy.\<close>

definition truthy :: "string option \<Rightarrow> bool" where
  "truthy v = (case v of None \<Rightarrow> False | Some s \<Rightarrow> s \<noteq> [])"

section \<open>Layer store operations\<close>

text \<open>
  \<open>uuidv4()\<close> is the argument \<open>newId\<close>. (The second version of App.tsx has no
  \<open>isMobile\<close> and always places a new layer as the first one does when \<open>isMobile\<close> is
  false.)
\<close>

definition addTextLayer :: "string \<Rightarrow> AppState \<Rightarrow> AppState \<times> effect list" where
  "addTextLayer newId st =
     (if \<not> truthy (imageSrc st) then (st, [Alert ALERT_UPLOAD_FIRST])
      else
        let newLayer = \<lparr> layer_id = newId, layer_type = TEXT,
              layer_x = ar_width (aspectRatio st) / 2 - 200,
              layer_y = (if isMobile st then ar_height (aspectRatio st) * (2 / 10)
                         else ar_height (aspectRatio st) / 2 - 75),
              layer_width = 400, layer_height = 150, layer_rotation = 0,
              content = NEW_TEXT_CONTENT, style = Some INITIAL_TEXT_STYLE \<rparr>
        in (st\<lparr> layers := layers st @ [newLayer], selectedLayerId := Some newId \<rparr>, []))"

definition addStickerLayer :: "string \<Rightarrow> string \<Rightarrow> AppState \<Rightarrow> AppState \<times> effect list" where
  "addStickerLayer newId sticker st =
     (if \<not> truthy (imageSrc st) then (st, [Alert ALERT_UPLOAD_FIRST])
      else
        let newLayer = \<lparr> layer_id = newId, layer_type = STICKER,
              layer_x = ar_width (aspectRatio st) / 2 - 50,
              layer_y = (if isMobile st then ar_height (aspectRatio st) * (2 / 10)
                         else ar_height (aspectRatio st) / 2 - 50),
              layer_width = 150, layer_height = 150, layer_rotation = 0,
              content = sticker, style = None \<rparr>
        in (st\<lparr> layers := layers st @ [newLayer], selectedLayerId := Some newId \<rparr>, []))"

definition updateLayer :: "string \<Rightarrow> LayerPartial \<Rightarrow> AppState \<Rightarrow> AppState" where
  "updateLayer i updates st =
     st\<lparr> layers := map (\<lambda>l. if layer_id l = i then mergeLayer l updates else l) (layers st) \<rparr>"

definition updateLayerStyle :: "string \<Rightarrow> FontStyle \<Rightarrow> AppState \<Rightarrow> AppState" where
  "updateLayerStyle i styleUpdates st =
     st\<lparr> layers := map (\<lambda>l. if layer_id l = i \<and> layer_type l = TEXT
                              then l\<lparr> style := Some (mergeStyle (style l) styleUpdates) \<rparr>
                              else l) (layers st) \<rparr>"

definition deleteLayer :: "string \<Rightarrow> AppState \<Rightarrow> AppState" where
  "deleteLayer i st =
     (let st1 = st\<lparr> layers := filter (\<lambda>l. layer_id l \<noteq> i) (layers st) \<rparr>
      in if selectedLayerId st = Some i then st1\<lparr> selectedLayerId := None \<rparr> else st1)"

definition setSelectedLayerId :: "string option \<Rightarrow> AppState \<Rightarrow> AppState" where
  "setSelectedLayerId sel st = st\<lparr> selectedLayerId := sel \<rparr>"

text \<open>
  The \<open>img.onload\<close> callback of \<open>handleImageUpload\<close>: \<open>result\<close> is the data URL read from
  the file, \<open>w\<close> and \<open>h\<close> the natural size of the decoded image.
\<close>

definition handleImageUpload_onload ::
  "string \<Rightarrow> real \<Rightarrow> real \<Rightarrow> bool \<Rightarrow> AppState \<Rightarrow> AppState" where
  "handleImageUpload_onload result w h isReplace st =
     (let st1 = st\<lparr> originalSize := Some (w, h) \<rparr>;
          st2 = (if \<not> truthy (imageSrc st)
                    \<or> (\<not> isReplace \<and> ar_name (aspectRatio st) = ''original'')
                    \<or> (isReplace \<and> ar_name (aspectRatio st) = ''original'')
                 then st1\<lparr> aspectRatio := \<lparr> ar_name = ''original'', ar_width = w,
                        ar_height = h, ar_label = LABEL_ORIGINAL, ar_icon = ''image'' \<rparr> \<rparr>
                 else st1)
      in st2\<lparr> imageSrc := Some result, bgConfig := INITIAL_BG_CONFIG \<rparr>)"

text \<open>The same callback in the second version of App.tsx, which has no \<open>isReplace\<close>.\<close>

definition handleImageUpload_onload_2 ::
  "string \<Rightarrow> real \<Rightarrow> real \<Rightarrow> AppState \<Rightarrow> AppState" where
  "handleImageUpload_onload_2 result w h st =
     (let st1 = st\<lparr> originalSize := Some (w, h) \<rparr>;
          st2 = (if \<not> truthy (imageSrc st) \<or> ar_name (aspectRatio st) = ''original''
                 then st1\<lparr> aspectRatio := \<lparr> ar_name = ''original'', ar_width = w,
                        ar_height = h, ar_label = LABEL_ORIGINAL, ar_icon = ''image'' \<rparr> \<rparr>
                 else st1)
      in st2\<lparr> imageSrc := Some result, bgConfig := INITIAL_BG_CONFIG \<rparr>)"

section \<open>Export (App.tsx, handleExport)\<close>

text \<open>How an awaited promise settles.\<close>

datatype 'a settled = Resolved 'a | Rejected

text \<open>The alert text of a failed export ("export failed, please retry").\<close>

definition ALERT_EXPORT_FAILED :: string where
  "ALERT_EXPORT_FAILED = [CHR 0xE5, CHR 0xAF, CHR 0xBC, CHR 0xE5, CHR 0x87, CHR 0xBA,
     CHR 0xE5, CHR 0xA4, CHR 0xB1, CHR 0xE8, CHR 0xB4, CHR 0xA5,
     CHR 0xEF, CHR 0xBC, CHR 0x8C, CHR 0xE8, CHR 0xAF, CHR 0xB7,
     CHR 0xE9, CHR 0x87, CHR 0x8D, CHR 0xE8, CHR 0xAF, CHR 0x95]"

definition ALERT_EXPORT_FAILED_2 :: string where
  "ALERT_EXPORT_FAILED_2 = ALERT_EXPORT_FAILED @ '' (Export Failed)''"

definition commonConfig :: "AppState \<Rightarrow> ExportConfig" where
  "commonConfig st =
     \<lparr> skipAutoScale = True, pixelRatio = 1,
       cfg_width = ar_width (aspectRatio st), cfg_height = ar_height (aspectRatio st),
       canvasWidth = ar_width (aspectRatio st), canvasHeight = ar_height (aspectRatio st),
       fontEmbedCSS = fontCssRef st,
       style_transform = ''none'', style_transformOrigin = ''top left'',
       fetch_mode = ''cors'', fetch_credentials = ''omit'',
       cacheBust = None \<rparr>"

text \<open>
  The inner \<open>try\<close>/\<open>catch\<close>: the fast attempt, and the attempt with \<open>cacheBust\<close> in the
  handler of its rejection. \<open>attempt1\<close> and \<open>attempt2\<close> are how the two calls of
  \<open>toPng\<close> settle; the second is looked at only when the first one rejects. \<open>warn\<close> are
  the effects of the handler before it retries.
\<close>

definition captureAttempts ::
  "effect list \<Rightarrow> string settled \<Rightarrow> string settled \<Rightarrow> AppState
     \<Rightarrow> string settled \<times> effect list" where
  "captureAttempts warn attempt1 attempt2 st =
     (let cfg = commonConfig st;
          fast = ToPng (selectedLayerId st) (cfg\<lparr> cacheBust := Some False \<rparr>);
          slow = ToPng (selectedLayerId st) (cfg\<lparr> cacheBust := Some True \<rparr>)
      in case attempt1 of
           Resolved dataUrl \<Rightarrow> (Resolved dataUrl, [fast])
         | Rejected \<Rightarrow> (attempt2, [fast] @ warn @ [slow]))"

text \<open>
  \<open>handleExport\<close> of the first version of App.tsx. The 10 ms timer is awaited between
  the deselection and the first capture and has no effect of its own. \<open>now\<close> is
  \<open>Date.now()\<close>.
\<close>

definition handleExport ::
  "string settled \<Rightarrow> string settled \<Rightarrow> nat \<Rightarrow> AppState \<Rightarrow> AppState \<times> effect list" where
  "handleExport attempt1 attempt2 now st =
     (if \<not> workspaceRef st \<or> \<not> truthy (imageSrc st) then (st, [])
      else
        let originalSelection = selectedLayerId st;
            st1 = st\<lparr> isExporting := True, selectedLayerId := None \<rparr>;
            (res, captures) = captureAttempts [] attempt1 attempt2 st1;
            after = (case res of
                       Resolved dataUrl \<Rightarrow> (if dataUrl \<noteq> [] then [Download now dataUrl] else [])
                     | Rejected \<Rightarrow> [ConsoleError, Alert ALERT_EXPORT_FAILED])
        in (st1\<lparr> isExporting := False, selectedLayerId := originalSelection \<rparr>,
            captures @ after))"

text \<open>
  \<open>handleExport\<close> of the second version of App.tsx: it warns before the retry, and an
  empty data URL is an error as well.
\<close>

definition handleExport_2 ::
  "string settled \<Rightarrow> string settled \<Rightarrow> nat \<Rightarrow> AppState \<Rightarrow> AppState \<times> effect list" where
  "handleExport_2 attempt1 attempt2 now st =
     (if \<not> workspaceRef st \<or> \<not> truthy (imageSrc st) then (st, [])
      else
        let originalSelection = selectedLayerId st;
            st1 = st\<lparr> isExporting := True, selectedLayerId := None \<rparr>;
            (res, captures) = captureAttempts [ConsoleWarn] attempt1 attempt2 st1;
            after = (case res of
                       Resolved dataUrl \<Rightarrow>
                         (if dataUrl \<noteq> [] then [Download now dataUrl]
                          else [ConsoleError, Alert ALERT_EXPORT_FAILED_2])
                     | Rejected \<Rightarrow> [ConsoleError, Alert ALERT_EXPORT_FAILED_2])
        in (st1\<lparr> isExporting := False, selectedLayerId := originalSelection \<rparr>,
            captures @ after))"

text \<open>The calls of \<open>toPng\<close> in a list of effects.\<close>

fun captures_of :: "effect list \<Rightarrow> (string option \<times> ExportConfig) list" where
  "captures_of [] = []"
| "captures_of (ToPng sel cfg # es) = (sel, cfg) # captures_of es"
| "captures_of (e # es) = captures_of es"

section \<open>Caption service (services/geminiService.ts)\<close>

datatype js_error = Error string | TypeError | ApiError

definition FALLBACK_CAPTION :: string where
  "FALLBACK_CAPTION = [CHR 0xE7, CHR 0xBE, CHR 0x8E, CHR 0xE5, CHR 0xA5, CHR 0xBD,
     CHR 0xE7, CHR 0x9A, CHR 0x84, CHR 0xE4, CHR 0xB8, CHR 0x80,
     CHR 0xE5, CHR 0xA4, CHR 0xA9, CHR 0x20, CHR 0xE2, CHR 0x9C,
     CHR 0xA8]"

definition PROMPT_TOPIC_HEAD :: string where
  "PROMPT_TOPIC_HEAD = [CHR 0xE8, CHR 0xAF, CHR 0xB7, CHR 0xE4, CHR 0xB8, CHR 0xBA,
     CHR 0xE4, CHR 0xB8, CHR 0x80, CHR 0xE5, CHR 0xBC, CHR 0xA0,
     CHR 0xE5, CHR 0x85, CHR 0xB3, CHR 0xE4, CHR 0xBA, CHR 0x8E,
     CHR 0x22]"

definition PROMPT_TOPIC_TAIL :: string where
  "PROMPT_TOPIC_TAIL = [CHR 0x22, CHR 0xE7, CHR 0x9A, CHR 0x84, CHR 0xE5, CHR 0x9B,
     CHR 0xBE, CHR 0xE7, CHR 0x89, CHR 0x87, CHR 0xE7, CHR 0x94,
     CHR 0x9F, CHR 0xE6, CHR 0x88, CHR 0x90, CHR 0xE4, CHR 0xB8,
     CHR 0x80, CHR 0xE4, CHR 0xB8, CHR 0xAA, CHR 0xE7, CHR 0xAE,
     CHR 0x80, CHR 0xE7, CHR 0x9F, CHR 0xAD, CHR 0xE3, CHR 0x80,
     CHR 0x81, CHR 0xE6, CHR 0x9C, CHR 0x89, CHR 0xE5, CHR 0x88,
     CHR 0x9B, CHR 0xE6, CHR 0x84, CHR 0x8F, CHR 0xE3, CHR 0x80,
     CHR 0x81, CHR 0xE5, CHR 0x90, CHR 0xB8, CHR 0xE5, CHR 0xBC,
     CHR 0x95, CHR 0xE4, CHR 0xBA, CHR 0xBA, CHR 0xE7, CHR 0x9A,
     CHR 0x84, CHR 0xE4, CHR 0xB8, CHR 0xAD, CHR 0xE6, CHR 0x96,
     CHR 0x87, CHR 0xE6, CHR 0xA0, CHR 0x87, CHR 0xE9, CHR 0xA2,
     CHR 0x98, CHR 0xE6, CHR 0x88, CHR 0x96, CHR 0xE6, CHR 0x96,
     CHR 0x87, CHR 0xE6, CHR 0xA1, CHR 0x88, CHR 0xEF, CHR 0xBC,
     CHR 0x8C, CHR 0xE4, CHR 0xB8, CHR 0x8D, CHR 0xE8, CHR 0xB6,
     CHR 0x85, CHR 0xE8, CHR 0xBF, CHR 0x87, CHR 0x31, CHR 0x35,
     CHR 0xE4, CHR 0xB8, CHR 0xAA, CHR 0xE5, CHR 0xAD, CHR 0x97,
     CHR 0xEF, CHR 0xBC, CHR 0x8C, CHR 0xE4, CHR 0xB8, CHR 0x8D,
     CHR 0xE8, CHR 0xA6, CHR 0x81, CHR 0xE5, CHR 0xB8, CHR 0xA6,
     CHR 0xE5, CHR 0xBC, CHR 0x95, CHR 0xE5, CHR 0x8F, CHR 0xB7,
     CHR 0xE3, CHR 0x80, CHR 0x82]"

definition PROMPT_GENERAL :: string where
  "PROMPT_GENERAL = [CHR 0xE8, CHR 0xAF, CHR 0xB7, CHR 0xE7, CHR 0x94, CHR 0x9F,
     CHR 0xE6, CHR 0x88, CHR 0x90, CHR 0xE4, CHR 0xB8, CHR 0x80,
     CHR 0xE4, CHR 0xB8, CHR 0xAA, CHR 0xE9, CHR 0x80, CHR 0x9A,
     CHR 0xE7, CHR 0x94, CHR 0xA8, CHR 0xE7, CHR 0x9A, CHR 0x84,
     CHR 0xE3, CHR 0x80, CHR 0x81, CHR 0xE5, CHR 0x85, CHR 0x85,
     CHR 0xE6, CHR 0xBB, CHR 0xA1, CHR 0xE6, CHR 0xAD, CHR 0xA3,
     CHR 0xE8, CHR 0x83, CHR 0xBD, CHR 0xE9, CHR 0x87, CHR 0x8F,
     CHR 0xE6, CHR 0x88, CHR 0x96, CHR 0xE6, CHR 0x96, CHR 0x87,
     CHR 0xE8, CHR 0x89, CHR 0xBA, CHR 0xE6, CHR 0xB0, CHR 0x94,
     CHR 0xE6, CHR 0x81, CHR 0xAF, CHR 0xE7, CHR 0x9A, CHR 0x84,
     CHR 0xE4, CHR 0xB8, CHR 0xAD, CHR 0xE6, CHR 0x96, CHR 0x87,
     CHR 0xE5, CHR 0x9B, CHR 0xBE, CHR 0xE7, CHR 0x89, CHR 0x87,
     CHR 0xE9, CHR 0x85, CHR 0x8D, CHR 0xE6, CHR 0x96, CHR 0x87,
     CHR 0xEF, CHR 0xBC, CHR 0x8C, CHR 0xE4, CHR 0xB8, CHR 0x8D,
     CHR 0xE8, CHR 0xB6, CHR 0x85, CHR 0xE8, CHR 0xBF, CHR 0x87,
     CHR 0x31, CHR 0x32, CHR 0xE4, CHR 0xB8, CHR 0xAA, CHR 0xE5,
     CHR 0xAD, CHR 0x97, CHR 0xEF, CHR 0xBC, CHR 0x8C, CHR 0xE4,
     CHR 0xB8, CHR 0x8D, CHR 0xE8, CHR 0xA6, CHR 0x81, CHR 0xE5,
     CHR 0xB8, CHR 0xA6, CHR 0xE5, CHR 0xBC, CHR 0x95, CHR 0xE5,
     CHR 0x8F, CHR 0xB7, CHR 0xE3, CHR 0x80, CHR 0x82]"

text \<open>
  \<open>String.prototype.trim\<close> on UTF-8 bytes: the white space and line terminators of
  ECMAScript are the ASCII characters 0x09 to 0x0D and 0x20, U+00A0 (C2 A0), U+1680
  (E1 9A 80), U+2000 to U+200A, U+2028, U+2029, U+202F (E2 80 ..), U+205F (E2 81 9F),
  U+3000 (E3 80 80) and U+FEFF (EF BB BF).
\<close>

definition ws1 :: "char \<Rightarrow> bool" where
  "ws1 a = (a \<in> set [CHR 0x09, CHR 0x0A, CHR 0x0B, CHR 0x0C, CHR 0x0D, CHR 0x20])"

definition ws2 :: "char \<Rightarrow> char \<Rightarrow> bool" where
  "ws2 a b = (a = CHR 0xC2 \<and> b = CHR 0xA0)"

definition ws3 :: "char \<Rightarrow> char \<Rightarrow> char \<Rightarrow> bool" where
  "ws3 a b c =
     ((a = CHR 0xE1 \<and> b = CHR 0x9A \<and> c = CHR 0x80)
      \<or> (a = CHR 0xE2 \<and> b = CHR 0x80
          \<and> c \<in> set [CHR 0x80, CHR 0x81, CHR 0x82, CHR 0x83, CHR 0x84, CHR 0x85, CHR 0x86,
                      CHR 0x87, CHR 0x88, CHR 0x89, CHR 0x8A, CHR 0xA8, CHR 0xA9, CHR 0xAF])
      \<or> (a = CHR 0xE2 \<and> b = CHR 0x81 \<and> c = CHR 0x9F)
      \<or> (a = CHR 0xE3 \<and> b = CHR 0x80 \<and> c = CHR 0x80)
      \<or> (a = CHR 0xEF \<and> b = CHR 0xBB \<and> c = CHR 0xBF))"

fun trimStart :: "string \<Rightarrow> string" where
  "trimStart (a # b # c # s) =
     (if ws1 a then trimStart (b # c # s)
      else if ws2 a b then trimStart (c # s)
      else if ws3 a b c then trimStart s
      else a # b # c # s)"
| "trimStart [a, b] =
     (if ws1 a then trimStart [b] else if ws2 a b then [] else [a, b])"
| "trimStart [a] = (if ws1 a then [] else [a])"
| "trimStart [] = []"

text \<open>The same from the end, on the reversed string.\<close>

fun trimStart_rev :: "string \<Rightarrow> string" where
  "trimStart_rev (c # b # a # s) =
     (if ws1 c then trimStart_rev (b # a # s)
      else if ws2 b c then trimStart_rev (a # s)
      else if ws3 a b c then trimStart_rev s
      else c # b # a # s)"
| "trimStart_rev [b, a] =
     (if ws1 b then trimStart_rev [a] else if ws2 a b then [] else [b, a])"
| "trimStart_rev [a] = (if ws1 a then [] else [a])"
| "trimStart_rev [] = []"

definition trim :: "string \<Rightarrow> string" where
  "trim s = rev (trimStart_rev (rev (trimStart s)))"

text \<open>
  \<open>getClient\<close>: \<open>apiKey\<close> is \<open>process.env.API_KEY\<close>; the client is stood for by the key it
  was built with.
\<close>

definition getClient :: "string option \<Rightarrow> js_error + string" where
  "getClient apiKey =
     (if \<not> truthy apiKey then Inl (Error ''API Key is missing'')
      else case apiKey of Some k \<Rightarrow> Inr k | None \<Rightarrow> Inl (Error ''API Key is missing''))"

text \<open>
  The body of the \<open>try\<close> block; \<open>captionPrompt\<close> is the conditional expression that
  builds \<open>prompt\<close>. \<open>generateContent ai prompt\<close> is how the awaited request
  settles: it rejects, or it resolves to a response whose \<open>text\<close> is a string or
  \<open>undefined\<close>; calling \<open>trim\<close> on \<open>undefined\<close> throws a TypeError.
\<close>

definition captionPrompt :: "string option \<Rightarrow> string" where
  "captionPrompt topic =
     (case topic of
        None \<Rightarrow> PROMPT_GENERAL
      | Some t \<Rightarrow> (if t \<noteq> [] then PROMPT_TOPIC_HEAD @ t @ PROMPT_TOPIC_TAIL
                  else PROMPT_GENERAL))"

definition generateCaption_try ::
  "string option \<Rightarrow> (string \<Rightarrow> string \<Rightarrow> js_error + string option) \<Rightarrow> string option
     \<Rightarrow> js_error + string" where
  "generateCaption_try apiKey generateContent topic =
     (case getClient apiKey of
        Inl e \<Rightarrow> Inl e
      | Inr ai \<Rightarrow>
          (case generateContent ai (captionPrompt topic) of
             Inl e \<Rightarrow> Inl e
           | Inr None \<Rightarrow> Inl TypeError
           | Inr (Some t) \<Rightarrow> Inr (trim t)))"

text \<open>
  \<open>generateCaption\<close>: \<open>Inl\<close> is a promise rejected with that error, \<open>Inr\<close> one resolved
  to that string.
\<close>

definition generateCaption ::
  "string option \<Rightarrow> (string \<Rightarrow> string \<Rightarrow> js_error + string option) \<Rightarrow> string option
     \<Rightarrow> (js_error + string) \<times> effect list" where
  "generateCaption apiKey generateContent topic =
     (case generateCaption_try apiKey generateContent topic of
        Inr caption \<Rightarrow> (Inr caption, [])
      | Inl e \<Rightarrow> (Inr FALLBACK_CAPTION, [ConsoleError]))"

section \<open>Layer gestures (components/LayerComponent.tsx)\<close>

text \<open>\<open>resizeStartData.current\<close>, when it is not \<open>null\<close>.\<close>

record ResizeStartData =
  rs_width :: real
  rs_height :: real
  rs_fontSize :: "real option"

text \<open>
  The refs and state cells of one \<open>LayerComponent\<close>; \<open>nodeRef\<close> tells whether
  \<open>nodeRef.current\<close> is set.
\<close>

record ComponentState =
  resizeStartData :: "ResizeStartData option"
  rotateOffset :: real
  isRotating :: bool
  isEditing :: bool
  nodeRef :: bool

definition onResizeStart :: "Layer \<Rightarrow> ComponentState \<Rightarrow> ComponentState" where
  "onResizeStart layer cs =
     (case style layer of
        Some s \<Rightarrow>
          (if layer_type layer = TEXT
           then cs\<lparr> resizeStartData := Some \<lparr> rs_width = layer_width layer,
                       rs_height = layer_height layer, rs_fontSize = fontSize s \<rparr> \<rparr>
           else cs)
      | None \<Rightarrow> cs)"

definition isCorner :: "string \<Rightarrow> bool" where
  "isCorner direction =
     (direction \<in> set [''topLeft'', ''topRight'', ''bottomLeft'', ''bottomRight''])"

text \<open>
  \<open>Math.max(12, startFontSize * (newHeight / startHeight))\<close>. \<open>None\<close> stands for a
  result that is no finite number: an absent start font size gives NaN. With a start
  height of 0 (taken as the positive zero) the quotient is \<open>Infinity\<close>, \<open>-Infinity\<close>
  or, for a new height of 0, NaN; the product is \<open>-Infinity\<close> when the start font
  size and the new height have opposite signs, and then the maximum is 12; otherwise
  the product, and the maximum with it, is \<open>Infinity\<close> or NaN.
\<close>

definition scaledFontSize :: "real option \<Rightarrow> real \<Rightarrow> real \<Rightarrow> real option" where
  "scaledFontSize startFontSize newHeight startHeight =
     (case startFontSize of
        None \<Rightarrow> None
      | Some f \<Rightarrow> (if startHeight \<noteq> 0 then Some (max 12 (f * (newHeight / startHeight)))
                  else if (0 < f \<and> newHeight < 0) \<or> (f < 0 \<and> 0 < newHeight) then Some 12
                  else None))"

text \<open>
  \<open>onResize\<close>: the result is the object \<open>updates\<close> handed to \<open>onUpdate(layer.id, updates)\<close>.
  \<open>newWidth\<close> and \<open>newHeight\<close> are the integers that \<open>parseInt\<close> reads from the style
  of the resized element, \<open>px\<close> and \<open>py\<close> the fields of \<open>position\<close>.
\<close>

definition onResize ::
  "Layer \<Rightarrow> ComponentState \<Rightarrow> string \<Rightarrow> int \<Rightarrow> int \<Rightarrow> real \<Rightarrow> real \<Rightarrow> LayerPartial" where
  "onResize layer cs direction newWidth newHeight px py =
     (let updates = noUpdates\<lparr> p_width := Some (of_int newWidth),
            p_height := Some (of_int newHeight), p_x := Some px, p_y := Some py \<rparr>
      in case (style layer, resizeStartData cs) of
           (Some s, Some d) \<Rightarrow>
             (if layer_type layer = TEXT \<and> isCorner direction
              then updates\<lparr> p_style := Some (Some (s\<lparr> fontSize :=
                     scaledFontSize (rs_fontSize d) (of_int newHeight) (rs_height d) \<rparr>)) \<rparr>
              else updates)
         | _ \<Rightarrow> updates)"

text \<open>
  One resize gesture on a layer: \<open>onResizeStart\<close>, then one \<open>onResize\<close> for every move
  of the handle. Each \<open>onUpdate\<close> goes through \<open>updateLayer\<close>, which merges the update
  into the layer, and the component is rendered again with the merged layer.
\<close>

datatype resize_move = ResizeMove string int int real real

fun resizeMoves :: "ComponentState \<Rightarrow> resize_move list \<Rightarrow> Layer \<Rightarrow> Layer" where
  "resizeMoves cs [] layer = layer"
| "resizeMoves cs (ResizeMove direction w h px py # ms) layer =
     resizeMoves cs ms (mergeLayer layer (onResize layer cs direction w h px py))"

definition resizeGesture :: "ComponentState \<Rightarrow> resize_move list \<Rightarrow> Layer \<Rightarrow> Layer" where
  "resizeGesture cs ms layer = resizeMoves (onResizeStart layer cs) ms layer"

definition layerFontSize :: "Layer \<Rightarrow> real option" where
  "layerFontSize l = (case style l of None \<Rightarrow> None | Some s \<Rightarrow> fontSize s)"

subsection \<open>Rotation snapping (handleMove)\<close>

text \<open>
  The snapping of \<open>handleMove\<close>: the statements from \<open>const normalizedRot\<close> to the end
  of the \<open>if\<close> chain, as a function of the value that \<open>rotation\<close> has before them
  (the pointer angle minus \<open>rotateOffset.current\<close>).

  The model takes that value as a whole number of degrees, of a magnitude up to
  \<open>2^31\<close>. On such a value the double arithmetic of the code is exact: the remainders,
  sums and products are whole numbers far below \<open>2^53\<close>, and the comparisons are
  between whole numbers. Only the quotient \<open>rotation / 360\<close> is rounded; it is a
  half-integer exactly when \<open>rotation\<close> is 180 modulo 360, where the division is
  exact, and otherwise it is at least \<open>1/360\<close> away from every half-integer, much
  farther than the rounding moves it, so \<open>Math.round\<close> gives the same whole number for
  the rounded and for the exact quotient. A rotation that is not a whole number is
  not covered: next to the bounds of the 5 degree windows the outcome depends on how
  the sum \<open>rotation % 360 + 360\<close> is rounded.
\<close>

text \<open>The remainder \<open>%\<close> on whole numbers: it has the sign of the dividend.\<close>

definition js_rem :: "int \<Rightarrow> int \<Rightarrow> int" where
  "js_rem a n = (if 0 \<le> a then a mod \<bar>n\<bar> else - ((- a) mod \<bar>n\<bar>))"

text \<open>\<open>Math.round\<close>: the nearest whole number, a half rounded up.\<close>

definition Math_round :: "real \<Rightarrow> int" where
  "Math_round z = \<lfloor>z + 1 / 2\<rfloor>"

definition normalizedRot :: "int \<Rightarrow> int" where
  "normalizedRot rotation = js_rem (js_rem rotation 360 + 360) 360"

definition snapRotation :: "int \<Rightarrow> int" where
  "snapRotation rotation =
     (let n = normalizedRot rotation in
      if n < 5 \<or> n > 355 then Math_round (of_int rotation / 360) * 360
      else if \<bar>n - 90\<bar> < 5 then Math_round (of_int rotation / 360) * 360 + 90
      else if \<bar>n - 180\<bar> < 5 then Math_round (of_int rotation / 360) * 360 + 180
      else if \<bar>n - 270\<bar> < 5 then Math_round (of_int rotation / 360) * 360 + 270
      else rotation)"

subsection \<open>The updates a component sends\<close>

text \<open>
  \<open>onDragStop\<close> sends the position where the drag ended, and the \<open>onChange\<close> of the
  text area the edited text.
\<close>

definition onDragStop :: "real \<Rightarrow> real \<Rightarrow> LayerPartial" where
  "onDragStop dx dy = noUpdates\<lparr> p_x := Some dx, p_y := Some dy \<rparr>"

definition onContentChange :: "string \<Rightarrow> LayerPartial" where
  "onContentChange v = noUpdates\<lparr> p_content := Some v \<rparr>"

text \<open>
  \<open>handleMove\<close> sends the rotation it has computed: \<open>v\<close> is the value of \<open>rotation\<close>
  after the snapping.
\<close>

definition rotationUpdate :: "real \<Rightarrow> LayerPartial" where
  "rotationUpdate v = noUpdates\<lparr> p_rotation := Some v \<rparr>"

text \<open>
  Every call \<open>onUpdate(layer.id, updates)\<close> of \<open>LayerComponent\<close>: the event, and the
  update it sends for the layer the component shows. \<open>handleMove\<close> listens to the
  pointer only while \<open>isRotating\<close> is set, and returns without an update when
  \<open>nodeRef.current\<close> is not set.
\<close>

datatype component_event =
    DragStop real real
  | Resize string int int real real
  | RotateMove real
  | ContentChange string

fun component_update :: "Layer \<Rightarrow> ComponentState \<Rightarrow> component_event \<Rightarrow> LayerPartial option" where
  "component_update layer cs (DragStop dx dy) = Some (onDragStop dx dy)"
| "component_update layer cs (Resize direction w h px py) =
     Some (onResize layer cs direction w h px py)"
| "component_update layer cs (RotateMove v) =
     (if isRotating cs \<and> nodeRef cs then Some (rotationUpdate v) else None)"
| "component_update layer cs (ContentChange v) = Some (onContentChange v)"

section \<open>Notions of the specification\<close>

text \<open>A layer has a style exactly when it is a text layer.\<close>

definition style_iff_text :: "Layer \<Rightarrow> bool" where
  "style_iff_text l = ((style l \<noteq> None) = (layer_type l = TEXT))"

definition store_inv :: "AppState \<Rightarrow> bool" where
  "store_inv st = list_all style_iff_text (layers st)"

text \<open>The ids of the layers are uuids: no two layers of a store share one.\<close>

definition store_wf :: "AppState \<Rightarrow> bool" where
  "store_wf st = (store_inv st \<and> distinct (map layer_id (layers st)))"

text \<open>\<open>const selectedLayer = layers.find(l => l.id === selectedLayerId)\<close>\<close>

definition selectedLayer :: "AppState \<Rightarrow> Layer option" where
  "selectedLayer st =
     (case selectedLayerId st of
        None \<Rightarrow> None
      | Some i \<Rightarrow> find (\<lambda>l. layer_id l = i) (layers st))"

text \<open>
  The operations of the layer store as the program issues them. \<open>updateLayer\<close> has
  these callers in the source: a \<open>LayerComponent\<close> that shows a layer and handles an
  event on it (\<open>Update\<close>), and the text panel, which sends the edited text of the
  selected layer (\<open>UpdateContent\<close>). The other operations are taken with any
  arguments.
\<close>

datatype store_op =
    AddText string
  | AddSticker string string
  | Update Layer ComponentState component_event
  | UpdateContent string
  | UpdateStyle string FontStyle
  | Delete string
  | Select "string option"

fun apply_op :: "store_op \<Rightarrow> AppState \<Rightarrow> AppState" where
  "apply_op (AddText newId) st = fst (addTextLayer newId st)"
| "apply_op (AddSticker newId sticker) st = fst (addStickerLayer newId sticker st)"
| "apply_op (Update layer cs ev) st =
     (case component_update layer cs ev of
        None \<Rightarrow> st
      | Some updates \<Rightarrow> updateLayer (layer_id layer) updates st)"
| "apply_op (UpdateContent v) st =
     (case selectedLayer st of
        None \<Rightarrow> st
      | Some layer \<Rightarrow> updateLayer (layer_id layer) (onContentChange v) st)"
| "apply_op (UpdateStyle i styleUpdates) st = updateLayerStyle i styleUpdates st"
| "apply_op (Delete i) st = deleteLayer i st"
| "apply_op (Select sel) st = setSelectedLayerId sel st"

text \<open>
  What the program provides with an operation: the id of a new layer is fresh, and a
  component shows a layer of the store.
\<close>

fun op_ok :: "store_op \<Rightarrow> AppState \<Rightarrow> bool" where
  "op_ok (AddText newId) st = (newId \<notin> set (map layer_id (layers st)))"
| "op_ok (AddSticker newId sticker) st = (newId \<notin> set (map layer_id (layers st)))"
| "op_ok (Update layer cs ev) st = (layer \<in> set (layers st))"
| "op_ok other st = True"

text \<open>A sequence of operations, each provided as above in the state it meets.\<close>

fun apply_ops :: "store_op list \<Rightarrow> AppState \<Rightarrow> AppState" where
  "apply_ops [] st = st"
| "apply_ops (x # xs) st = apply_ops xs (apply_op x st)"

fun ops_ok :: "store_op list \<Rightarrow> AppState \<Rightarrow> bool" where
  "ops_ok [] st = True"
| "ops_ok (x # xs) st = (op_ok x st \<and> ops_ok xs (apply_op x st))"

text \<open>The multiple of 90 nearest to a whole number of degrees.\<close>

definition nearest_multiple_of_90 :: "int \<Rightarrow> int" where
  "nearest_multiple_of_90 r = 90 * ((r + 45) div 90)"

section \<open>Example values\<close>

text \<open>\<open>ASPECT_RATIOS[0]\<close> of constants.ts, the frame a session starts with.\<close>

definition frame_square :: AspectRatio where
  "frame_square = \<lparr> ar_name = ''1:1'', ar_width = 1080, ar_height = 1080,
     ar_label = [CHR 0xE6, CHR 0xAD, CHR 0xA3, CHR 0xE6, CHR 0x96, CHR 0xB9,
                 CHR 0xE5, CHR 0xBD, CHR 0xA2],
     ar_icon = ''square'' \<rparr>"

text \<open>The state of a fresh session, and the same session with an image loaded.\<close>

definition state_initial :: AppState where
  "state_initial = \<lparr> imageSrc = None, layers = [], selectedLayerId = None,
     aspectRatio = frame_square, originalSize = None, activeTab = Some Tab_layout,
     bgConfig = INITIAL_BG_CONFIG, isExporting = False, canvasScale = 6 / 10,
     isDarkMode = True, isMobileSheetOpen = False, isMobile = False,
     workspaceRef = False, fontCssRef = [] \<rparr>"

definition state_loaded :: AppState where
  "state_loaded = state_initial\<lparr> imageSrc := Some ''data:image/png;base64,AAAA'',
     workspaceRef := True \<rparr>"

text \<open>A loaded session with a text layer \<open>t1\<close> and a sticker \<open>s1\<close>; \<open>t1\<close> is selected.\<close>

definition state_two_layers :: AppState where
  "state_two_layers =
     (fst (addStickerLayer ''s1'' ''*'' (fst (addTextLayer ''t1'' state_loaded))))
       \<lparr> selectedLayerId := Some ''t1'' \<rparr>"

text \<open>The same session after the background was zoomed, moved and filtered.\<close>

definition state_adjusted_bg :: AppState where
  "state_adjusted_bg = state_two_layers\<lparr> bgConfig :=
     \<lparr> bg_scale = 2, bg_x = 30, bg_y = - 10, bg_filter = ''grayscale(100%)'' \<rparr> \<rparr>"

definition text_layer_150 :: Layer where
  "text_layer_150 = \<lparr> layer_id = ''t1'', layer_type = TEXT, layer_x = 340, layer_y = 465,
     layer_width = 400, layer_height = 150, layer_rotation = 0,
     content = NEW_TEXT_CONTENT, style = Some INITIAL_TEXT_STYLE \<rparr>"

definition sticker_layer_150 :: Layer where
  "sticker_layer_150 = \<lparr> layer_id = ''s1'', layer_type = STICKER, layer_x = 490,
     layer_y = 490, layer_width = 150, layer_height = 150, layer_rotation = 0,
     content = ''*'', style = None \<rparr>"

definition component_initial :: ComponentState where
  "component_initial = \<lparr> resizeStartData = None, rotateOffset = 0, isRotating = False,
     isEditing = False, nodeRef = True \<rparr>"

section \<open>Facts about the example values\<close>

lemma state_initial_no_image: "\<not> truthy (imageSrc state_initial)"
  by (simp add: truthy_def state_initial_def)

lemma state_two_layers_layers:
  "layers state_two_layers = [text_layer_150, sticker_layer_150]"
  by (simp add: state_two_layers_def state_loaded_def state_initial_def addTextLayer_def
      addStickerLayer_def truthy_def Let_def text_layer_150_def sticker_layer_150_def
      frame_square_def)

lemma state_two_layers_fields:
  "selectedLayerId state_two_layers = Some ''t1''"
  "workspaceRef state_two_layers"
  "truthy (imageSrc state_two_layers)"
  "aspectRatio state_two_layers = frame_square"
  by (simp_all add: state_two_layers_def state_loaded_def state_initial_def addTextLayer_def
      addStickerLayer_def truthy_def Let_def)

lemma example_layers_kinds:
  "layer_id text_layer_150 = ''t1''" "layer_type text_layer_150 = TEXT"
  "style text_layer_150 = Some INITIAL_TEXT_STYLE" "layer_height text_layer_150 = 150"
  "layer_rotation text_layer_150 = 0"
  "layer_id sticker_layer_150 = ''s1''" "layer_type sticker_layer_150 = STICKER"
  "style sticker_layer_150 = None"
  by (simp_all add: text_layer_150_def sticker_layer_150_def)

lemma store_inv_two_layers: "store_inv state_two_layers"
  by (simp add: store_inv_def state_two_layers_layers style_iff_text_def example_layers_kinds)

lemma store_wf_two_layers: "store_wf state_two_layers"
  by (simp add: store_wf_def store_inv_two_layers state_two_layers_layers example_layers_kinds)

section \<open>The layer store\<close>

lemma mergeLayer_sel [simp]:
  "layer_type (mergeLayer l u) = override (layer_type l) (p_type u)"
  "style (mergeLayer l u) = override (style l) (p_style u)"
  "layer_id (mergeLayer l u) = override (layer_id l) (p_id u)"
  "layer_height (mergeLayer l u) = override (layer_height l) (p_height u)"
  by (simp_all add: mergeLayer_def)

text \<open>
  C4. While no background image is loaded, \<open>addTextLayer\<close> and \<open>addStickerLayer\<close> return
  the state they were given (so the layers and the selection are the same) and do
  one thing besides: the alert that asks for an image.
\<close>

theorem C4_add_without_image:
  assumes "\<not> truthy (imageSrc st)"
  shows "addTextLayer newId st = (st, [Alert ALERT_UPLOAD_FIRST])
       \<and> addStickerLayer newId sticker st = (st, [Alert ALERT_UPLOAD_FIRST])
       \<and> layers (fst (addTextLayer newId st)) = layers st
       \<and> selectedLayerId (fst (addTextLayer newId st)) = selectedLayerId st
       \<and> layers (fst (addStickerLayer newId sticker st)) = layers st
       \<and> selectedLayerId (fst (addStickerLayer newId sticker st)) = selectedLayerId st"
  using assms by (simp add: addTextLayer_def addStickerLayer_def)

theorem C4_add_without_image_witness:
  "\<not> truthy (imageSrc state_initial)
   \<and> addTextLayer ''n1'' state_initial = (state_initial, [Alert ALERT_UPLOAD_FIRST])
   \<and> addStickerLayer ''n1'' ''*'' state_initial = (state_initial, [Alert ALERT_UPLOAD_FIRST])"
proof -
  note h = state_initial_no_image
  from C4_add_without_image [OF h, of "''n1''" "''*''"] h show ?thesis by simp
qed

subsection \<open>Style present exactly for text layers\<close>

lemma store_inv_addText: "store_inv st \<Longrightarrow> store_inv (fst (addTextLayer newId st))"
  by (simp add: store_inv_def addTextLayer_def Let_def style_iff_text_def)

lemma store_inv_addSticker:
  "store_inv st \<Longrightarrow> store_inv (fst (addStickerLayer newId sticker st))"
  by (simp add: store_inv_def addStickerLayer_def Let_def style_iff_text_def)

lemma store_inv_updateStyle: "store_inv st \<Longrightarrow> store_inv (updateLayerStyle i su st)"
  by (auto simp: store_inv_def updateLayerStyle_def list_all_iff style_iff_text_def)

lemma store_inv_delete: "store_inv st \<Longrightarrow> store_inv (deleteLayer i st)"
  by (auto simp: store_inv_def deleteLayer_def Let_def list_all_iff)

lemma store_inv_select: "store_inv st \<Longrightarrow> store_inv (setSelectedLayerId sel st)"
  by (simp add: store_inv_def setSelectedLayerId_def)

lemma store_inv_update:
  assumes "store_inv st" "p_type u = None"
    and "p_style u = None
         \<or> (\<exists>s. p_style u = Some (Some s)
                \<and> (\<forall>l\<in>set (layers st). layer_id l = i \<longrightarrow> layer_type l = TEXT))"
  shows "store_inv (updateLayer i u st)"
proof -
  have "style_iff_text (mergeLayer l u)"
    if "l \<in> set (layers st)" "layer_id l = i" for l
  proof -
    from assms(1) that(1) have inv: "style_iff_text l"
      by (simp add: store_inv_def list_all_iff)
    from assms(3) show ?thesis
    proof
      assume "p_style u = None"
      with inv assms(2) show ?thesis by (simp add: style_iff_text_def override_def)
    next
      assume "\<exists>s. p_style u = Some (Some s)
                \<and> (\<forall>l\<in>set (layers st). layer_id l = i \<longrightarrow> layer_type l = TEXT)"
      with that assms(2) show ?thesis
        by (auto simp: style_iff_text_def override_def)
    qed
  qed
  with assms(1) show ?thesis
    by (auto simp: store_inv_def updateLayer_def list_all_iff)
qed

lemma onResize_keys [simp]:
  "p_type (onResize l cs d w h px py) = None"
  "p_id (onResize l cs d w h px py) = None"
  by (simp_all add: onResize_def Let_def noUpdates_def split: option.split)

lemma onResize_style:
  "p_style (onResize l cs d w h px py) =
     (case (style l, resizeStartData cs) of
        (Some s, Some rs) \<Rightarrow>
          (if layer_type l = TEXT \<and> isCorner d
           then Some (Some (s\<lparr> fontSize :=
                  scaledFontSize (rs_fontSize rs) (of_int h) (rs_height rs) \<rparr>))
           else None)
      | _ \<Rightarrow> None)"
  by (auto simp: onResize_def Let_def noUpdates_def split: option.split)

text \<open>
  What a component sends never names the kind or the id of the layer, and it carries
  a style, then a style object, only from the resize of a text layer.
\<close>

lemma component_update_shape:
  assumes "component_update l cs ev = Some u"
  shows "p_type u = None" "p_id u = None"
    "p_style u = None \<or> (\<exists>s. p_style u = Some (Some s) \<and> layer_type l = TEXT)"
proof -
  have "p_type u = None \<and> p_id u = None
        \<and> (p_style u = None \<or> (\<exists>s. p_style u = Some (Some s) \<and> layer_type l = TEXT))"
  proof (cases ev)
    case (Resize d w h px py)
    with assms have u: "u = onResize l cs d w h px py" by simp
    show ?thesis unfolding u
      by (auto simp: onResize_style split: option.splits)
  next
    case (DragStop dx dy)
    with assms show ?thesis by (auto simp: onDragStop_def noUpdates_def)
  next
    case (RotateMove v)
    with assms show ?thesis by (auto simp: rotationUpdate_def noUpdates_def split: if_splits)
  next
    case (ContentChange v)
    with assms show ?thesis by (auto simp: onContentChange_def noUpdates_def)
  qed
  then show "p_type u = None" "p_id u = None"
    "p_style u = None \<or> (\<exists>s. p_style u = Some (Some s) \<and> layer_type l = TEXT)"
    by simp_all
qed

lemma same_id_same_layer:
  assumes "distinct (map layer_id (layers st))" "l \<in> set (layers st)"
    "l' \<in> set (layers st)" "layer_id l' = layer_id l"
  shows "l' = l"
  using assms by (auto simp: distinct_map dest: inj_onD)

lemma store_inv_component_update:
  assumes "store_inv st" "distinct (map layer_id (layers st))" "l \<in> set (layers st)"
    and "component_update l cs ev = Some u"
  shows "store_inv (updateLayer (layer_id l) u st)"
proof (rule store_inv_update)
  show "store_inv st" by fact
  show "p_type u = None" using assms(4) by (rule component_update_shape)
  from component_update_shape(3) [OF assms(4)]
  show "p_style u = None
         \<or> (\<exists>s. p_style u = Some (Some s)
                \<and> (\<forall>l'\<in>set (layers st). layer_id l' = layer_id l \<longrightarrow> layer_type l' = TEXT))"
  proof
    assume "p_style u = None"
    then show ?thesis by simp
  next
    assume "\<exists>s. p_style u = Some (Some s) \<and> layer_type l = TEXT"
    then obtain s where s: "p_style u = Some (Some s)" and t: "layer_type l = TEXT" by auto
    have "layer_type l' = TEXT" if "l' \<in> set (layers st)" "layer_id l' = layer_id l" for l'
      using same_id_same_layer [OF assms(2,3) that] t by simp
    with s show ?thesis by auto
  qed
qed

text \<open>The ids stay distinct.\<close>

lemma updateLayer_ids:
  assumes "p_id u = None"
  shows "map layer_id (layers (updateLayer i u st)) = map layer_id (layers st)"
  using assms by (simp add: updateLayer_def override_def)

lemma updateLayerStyle_ids:
  "map layer_id (layers (updateLayerStyle i su st)) = map layer_id (layers st)"
  by (simp add: updateLayerStyle_def)

lemma deleteLayer_ids:
  "distinct (map layer_id (layers st)) \<Longrightarrow> distinct (map layer_id (layers (deleteLayer i st)))"
  by (simp add: deleteLayer_def Let_def distinct_map_filter)

lemma addTextLayer_ids:
  assumes "distinct (map layer_id (layers st))" "newId \<notin> set (map layer_id (layers st))"
  shows "distinct (map layer_id (layers (fst (addTextLayer newId st))))"
  using assms by (simp add: addTextLayer_def Let_def)

lemma addStickerLayer_ids:
  assumes "distinct (map layer_id (layers st))" "newId \<notin> set (map layer_id (layers st))"
  shows "distinct (map layer_id (layers (fst (addStickerLayer newId sticker st))))"
  using assms by (simp add: addStickerLayer_def Let_def)

lemma store_wf_step:
  assumes "store_wf st" "op_ok op st"
  shows "store_wf (apply_op op st)"
proof -
  from assms(1) have inv: "store_inv st" and ids: "distinct (map layer_id (layers st))"
    by (simp_all add: store_wf_def)
  show ?thesis
  proof (cases op)
    case (AddText newId)
    with assms(2) inv ids show ?thesis
      by (simp add: store_wf_def store_inv_addText addTextLayer_ids)
  next
    case (AddSticker newId sticker)
    with assms(2) inv ids show ?thesis
      by (simp add: store_wf_def store_inv_addSticker addStickerLayer_ids)
  next
    case (Update l cs ev)
    with assms(2) have l: "l \<in> set (layers st)" by simp
    show ?thesis
    proof (cases "component_update l cs ev")
      case None
      with Update assms(1) show ?thesis by simp
    next
      case (Some u)
      from inv ids l Some have "store_inv (updateLayer (layer_id l) u st)"
        by (rule store_inv_component_update)
      moreover from component_update_shape(2) [OF Some] ids
      have "distinct (map layer_id (layers (updateLayer (layer_id l) u st)))"
        by (simp add: updateLayer_ids)
      ultimately show ?thesis using Update Some by (simp add: store_wf_def)
    qed
  next
    case (UpdateContent v)
    show ?thesis
    proof (cases "selectedLayer st")
      case None
      with UpdateContent assms(1) show ?thesis by simp
    next
      case (Some l)
      have "store_inv (updateLayer (layer_id l) (onContentChange v) st)"
        using inv by (rule store_inv_update) (simp_all add: onContentChange_def noUpdates_def)
      moreover have
        "distinct (map layer_id (layers (updateLayer (layer_id l) (onContentChange v) st)))"
        using ids by (simp add: updateLayer_ids onContentChange_def noUpdates_def)
      ultimately show ?thesis using UpdateContent Some by (simp add: store_wf_def)
    qed
  next
    case (UpdateStyle i su)
    with inv ids show ?thesis
      by (simp add: store_wf_def store_inv_updateStyle updateLayerStyle_ids)
  next
    case (Delete i)
    with inv ids show ?thesis
      by (simp add: store_wf_def store_inv_delete deleteLayer_ids)
  next
    case (Select sel)
    from inv have "store_inv (setSelectedLayerId sel st)" by (rule store_inv_select)
    moreover from ids have "distinct (map layer_id (layers (setSelectedLayerId sel st)))"
      by (simp add: setSelectedLayerId_def)
    ultimately show ?thesis using Select by (simp add: store_wf_def)
  qed
qed

text \<open>
  C5. \<open>updateLayer\<close> itself merges whatever fields it is given, so the property rests
  on what its callers send, and the operations are taken as the program issues them.
  In a store whose layers have distinct ids and a style exactly when they are text
  layers, the same holds after every operation: \<open>addTextLayer\<close> and \<open>addStickerLayer\<close>
  (with a fresh id), every \<open>updateLayer\<close> call of the source (a component that shows
  a layer of the store, for a drag, a resize, a rotation or a text edit, and the text
  panel for the selected layer), \<open>updateLayerStyle\<close>, \<open>deleteLayer\<close> and a selection
  with any arguments.
\<close>

theorem C5_style_iff_text_invariant:
  assumes "store_wf st" "op_ok op st"
  shows "store_wf (apply_op op st) \<and> list_all style_iff_text (layers (apply_op op st))"
proof -
  from assms have "store_wf (apply_op op st)" by (rule store_wf_step)
  then show ?thesis by (simp add: store_wf_def store_inv_def)
qed

text \<open>
  The text layer \<open>t1\<close> is resized from its corner to the height 225: the update
  carries a style, and the store keeps the property.
\<close>

theorem C5_style_iff_text_invariant_witness:
  "store_wf state_two_layers
   \<and> op_ok (Update text_layer_150 (onResizeStart text_layer_150 component_initial)
              (Resize ''bottomRight'' 600 225 340 465)) state_two_layers
   \<and> store_wf (apply_op
        (Update text_layer_150 (onResizeStart text_layer_150 component_initial)
           (Resize ''bottomRight'' 600 225 340 465)) state_two_layers)
   \<and> list_all style_iff_text (layers (apply_op
        (Update text_layer_150 (onResizeStart text_layer_150 component_initial)
           (Resize ''bottomRight'' 600 225 340 465)) state_two_layers))"
proof -
  have ok: "op_ok (Update text_layer_150 (onResizeStart text_layer_150 component_initial)
              (Resize ''bottomRight'' 600 225 340 465)) state_two_layers"
    by (simp add: state_two_layers_layers)
  from C5_style_iff_text_invariant [OF store_wf_two_layers ok] store_wf_two_layers ok
  show ?thesis by simp
qed

text \<open>
  The property holds at the start of a session, and so after every sequence of
  operations.
\<close>

lemma store_wf_initial: "store_wf state_initial"
  by (simp add: store_wf_def store_inv_def state_initial_def)

lemma store_wf_apply_ops:
  assumes "store_wf st" "ops_ok ops st"
  shows "store_wf (apply_ops ops st)"
  using assms
proof (induction ops arbitrary: st)
  case Nil
  then show ?case by simp
next
  case (Cons x xs)
  from Cons.prems have "store_wf (apply_op x st)"
    by (intro store_wf_step) simp_all
  with Cons show ?case by simp
qed

text \<open>
  C6. Deleting the id of a layer of the store removes every layer with that id and
  keeps the others in their order; the selection becomes empty when it was that id
  and stays as it was otherwise.
\<close>

theorem C6_delete_layer:
  assumes "i \<in> layer_id ` set (layers st)"
  shows "layers (deleteLayer i st) = filter (\<lambda>l. layer_id l \<noteq> i) (layers st)
       \<and> i \<notin> layer_id ` set (layers (deleteLayer i st))
       \<and> length (layers (deleteLayer i st)) < length (layers st)
       \<and> (selectedLayerId st = Some i \<longrightarrow> selectedLayerId (deleteLayer i st) = None)
       \<and> (selectedLayerId st \<noteq> Some i \<longrightarrow>
            selectedLayerId (deleteLayer i st) = selectedLayerId st)"
proof -
  have l: "layers (deleteLayer i st) = filter (\<lambda>l. layer_id l \<noteq> i) (layers st)"
    by (simp add: deleteLayer_def Let_def)
  from assms obtain x where "x \<in> set (layers st)" "layer_id x = i" by auto
  then have "length (filter (\<lambda>l. layer_id l \<noteq> i) (layers st)) < length (layers st)"
    by (auto intro!: length_filter_less)
  with l show ?thesis by (auto simp: deleteLayer_def Let_def)
qed

theorem C6_delete_layer_witness:
  "''t1'' \<in> layer_id ` set (layers state_two_layers)
   \<and> ''s1'' \<in> layer_id ` set (layers state_two_layers)
   \<and> selectedLayerId state_two_layers = Some ''t1''
   \<and> layers (deleteLayer ''t1'' state_two_layers) = [sticker_layer_150]
   \<and> selectedLayerId (deleteLayer ''t1'' state_two_layers) = None
   \<and> layers (deleteLayer ''s1'' state_two_layers) = [text_layer_150]
   \<and> selectedLayerId (deleteLayer ''s1'' state_two_layers) = Some ''t1''"
proof -
  have t: "''t1'' \<in> layer_id ` set (layers state_two_layers)"
    and s: "''s1'' \<in> layer_id ` set (layers state_two_layers)"
    by (simp_all add: state_two_layers_layers example_layers_kinds)
  from C6_delete_layer [OF t] C6_delete_layer [OF s] t s show ?thesis
    by (simp add: state_two_layers_layers state_two_layers_fields example_layers_kinds)
qed

text \<open>
  C9. When a loaded image arrives, as a first image or as a replacement, the
  background configuration becomes the default one (scale 1, x 0, y 0, filter none);
  the layers and the selection stay as they were. Both versions of the callback.
\<close>

theorem C9_image_load_resets_background:
  "bgConfig (handleImageUpload_onload result w h isReplace st) = INITIAL_BG_CONFIG
   \<and> INITIAL_BG_CONFIG = \<lparr> bg_scale = 1, bg_x = 0, bg_y = 0, bg_filter = ''none'' \<rparr>
   \<and> layers (handleImageUpload_onload result w h isReplace st) = layers st
   \<and> selectedLayerId (handleImageUpload_onload result w h isReplace st) = selectedLayerId st
   \<and> imageSrc (handleImageUpload_onload result w h isReplace st) = Some result
   \<and> bgConfig (handleImageUpload_onload_2 result w h st) = INITIAL_BG_CONFIG
   \<and> layers (handleImageUpload_onload_2 result w h st) = layers st
   \<and> selectedLayerId (handleImageUpload_onload_2 result w h st) = selectedLayerId st"
  by (simp add: handleImageUpload_onload_def handleImageUpload_onload_2_def Let_def
      INITIAL_BG_CONFIG_def)

theorem C9_image_load_resets_background_witness:
  "bgConfig state_adjusted_bg \<noteq> INITIAL_BG_CONFIG
   \<and> bgConfig (handleImageUpload_onload ''data:image/png;base64,CCCC'' 800 600 True
        state_adjusted_bg) = \<lparr> bg_scale = 1, bg_x = 0, bg_y = 0, bg_filter = ''none'' \<rparr>
   \<and> layers (handleImageUpload_onload ''data:image/png;base64,CCCC'' 800 600 True
        state_adjusted_bg) = [text_layer_150, sticker_layer_150]
   \<and> selectedLayerId (handleImageUpload_onload ''data:image/png;base64,CCCC'' 800 600 True
        state_adjusted_bg) = Some ''t1''"
proof -
  have before: "bgConfig state_adjusted_bg \<noteq> INITIAL_BG_CONFIG"
    and l: "layers state_adjusted_bg = [text_layer_150, sticker_layer_150]"
    and sel: "selectedLayerId state_adjusted_bg = Some ''t1''"
    by (simp_all add: state_adjusted_bg_def INITIAL_BG_CONFIG_def state_two_layers_layers
        state_two_layers_fields)
  from C9_image_load_resets_background
    [of "''data:image/png;base64,CCCC''" 800 600 True state_adjusted_bg] before l sel
  show ?thesis by simp
qed

section \<open>Export\<close>

lemma commonConfig_sel [simp]:
  "commonConfig (st\<lparr> isExporting := b, selectedLayerId := sel \<rparr>) = commonConfig st"
  by (simp add: commonConfig_def)

lemma captures_of_append [simp]:
  "captures_of (xs @ ys) = captures_of xs @ captures_of ys"
  by (induction xs rule: captures_of.induct) simp_all

lemma handleExport_captures:
  assumes "workspaceRef st" "truthy (imageSrc st)"
  shows "captures_of (snd (handleExport attempt1 attempt2 now st))
         = (case attempt1 of
              Resolved d \<Rightarrow> [(None, (commonConfig st)\<lparr> cacheBust := Some False \<rparr>)]
            | Rejected \<Rightarrow> [(None, (commonConfig st)\<lparr> cacheBust := Some False \<rparr>),
                           (None, (commonConfig st)\<lparr> cacheBust := Some True \<rparr>)])"
  using assms
  by (cases attempt1; cases attempt2)
     (simp_all add: handleExport_def captureAttempts_def Let_def)

lemma handleExport_2_captures:
  assumes "workspaceRef st" "truthy (imageSrc st)"
  shows "captures_of (snd (handleExport_2 attempt1 attempt2 now st))
         = (case attempt1 of
              Resolved d \<Rightarrow> [(None, (commonConfig st)\<lparr> cacheBust := Some False \<rparr>)]
            | Rejected \<Rightarrow> [(None, (commonConfig st)\<lparr> cacheBust := Some False \<rparr>),
                           (None, (commonConfig st)\<lparr> cacheBust := Some True \<rparr>)])"
  using assms
  by (cases attempt1; cases attempt2)
     (simp_all add: handleExport_2_def captureAttempts_def Let_def)

lemma handleExport_skipped:
  assumes "\<not> (workspaceRef st \<and> truthy (imageSrc st))"
  shows "handleExport attempt1 attempt2 now st = (st, [])"
    and "handleExport_2 attempt1 attempt2 now st = (st, [])"
  using assms by (auto simp: handleExport_def handleExport_2_def)

lemma handleExport_state:
  "fst (handleExport attempt1 attempt2 now st)
     = (if workspaceRef st \<and> truthy (imageSrc st) then st\<lparr> isExporting := False \<rparr> else st)"
  by (simp add: handleExport_def Let_def split: prod.split)

lemma handleExport_2_state:
  "fst (handleExport_2 attempt1 attempt2 now st)
     = (if workspaceRef st \<and> truthy (imageSrc st) then st\<lparr> isExporting := False \<rparr> else st)"
  by (simp add: handleExport_2_def Let_def split: prod.split)

lemma handleExport_zoom:
  "snd (handleExport attempt1 attempt2 now (st\<lparr> canvasScale := z \<rparr>))
     = snd (handleExport attempt1 attempt2 now st)"
  "snd (handleExport_2 attempt1 attempt2 now (st\<lparr> canvasScale := z \<rparr>))
     = snd (handleExport_2 attempt1 attempt2 now st)"
  by (simp_all add: handleExport_def handleExport_2_def captureAttempts_def commonConfig_def
      Let_def split: settled.split)

text \<open>
  C3. In an export with an image loaded, every call of \<open>toPng\<close> is given the width and
  height of the active frame, as \<open>width\<close>/\<open>height\<close> and as \<open>canvasWidth\<close>/\<open>canvasHeight\<close>,
  with \<open>pixelRatio\<close> 1 and the transform \<open>none\<close>; and everything the export does, the
  options of these calls included, is the same for any two values of the viewport
  zoom. (The raster itself is produced by the library behind \<open>toPng\<close> from these
  options.) Both versions of \<open>handleExport\<close> make the same calls.
\<close>

theorem C3_export_config_ignores_zoom:
  assumes "workspaceRef st" "truthy (imageSrc st)"
  shows "list_all (\<lambda>(sel, cfg).
            cfg_width cfg = ar_width (aspectRatio st)
            \<and> cfg_height cfg = ar_height (aspectRatio st)
            \<and> canvasWidth cfg = ar_width (aspectRatio st)
            \<and> canvasHeight cfg = ar_height (aspectRatio st)
            \<and> pixelRatio cfg = 1 \<and> style_transform cfg = ''none'')
          (captures_of (snd (handleExport attempt1 attempt2 now st)))
       \<and> captures_of (snd (handleExport attempt1 attempt2 now st)) \<noteq> []
       \<and> snd (handleExport attempt1 attempt2 now (st\<lparr> canvasScale := zoom1 \<rparr>))
           = snd (handleExport attempt1 attempt2 now (st\<lparr> canvasScale := zoom2 \<rparr>))
       \<and> captures_of (snd (handleExport_2 attempt1 attempt2 now st))
           = captures_of (snd (handleExport attempt1 attempt2 now st))
       \<and> snd (handleExport_2 attempt1 attempt2 now (st\<lparr> canvasScale := zoom1 \<rparr>))
           = snd (handleExport_2 attempt1 attempt2 now (st\<lparr> canvasScale := zoom2 \<rparr>))"
proof -
  have zz: "snd (handleExport attempt1 attempt2 now (st\<lparr> canvasScale := zoom1 \<rparr>))
           = snd (handleExport attempt1 attempt2 now (st\<lparr> canvasScale := zoom2 \<rparr>))"
    by (simp only: handleExport_zoom)
  have zz2: "snd (handleExport_2 attempt1 attempt2 now (st\<lparr> canvasScale := zoom1 \<rparr>))
           = snd (handleExport_2 attempt1 attempt2 now (st\<lparr> canvasScale := zoom2 \<rparr>))"
    by (simp only: handleExport_zoom)
  have caps: "list_all (\<lambda>(sel, cfg).
            cfg_width cfg = ar_width (aspectRatio st)
            \<and> cfg_height cfg = ar_height (aspectRatio st)
            \<and> canvasWidth cfg = ar_width (aspectRatio st)
            \<and> canvasHeight cfg = ar_height (aspectRatio st)
            \<and> pixelRatio cfg = 1 \<and> style_transform cfg = ''none'')
          (captures_of (snd (handleExport attempt1 attempt2 now st)))
       \<and> captures_of (snd (handleExport attempt1 attempt2 now st)) \<noteq> []
       \<and> captures_of (snd (handleExport_2 attempt1 attempt2 now st))
           = captures_of (snd (handleExport attempt1 attempt2 now st))"
    using assms
    by (cases attempt1)
       (simp_all add: handleExport_captures handleExport_2_captures commonConfig_def)
  from caps zz zz2 show ?thesis by blast
qed

theorem C3_export_config_ignores_zoom_witness:
  "workspaceRef state_two_layers \<and> truthy (imageSrc state_two_layers)
   \<and> list_all (\<lambda>(sel, cfg).
        cfg_width cfg = 1080 \<and> cfg_height cfg = 1080 \<and> canvasWidth cfg = 1080
        \<and> canvasHeight cfg = 1080 \<and> pixelRatio cfg = 1 \<and> style_transform cfg = ''none'')
      (captures_of (snd (handleExport Rejected (Resolved ''data:image/png;base64,BBBB'') 0
                           state_two_layers)))
   \<and> snd (handleExport Rejected (Resolved ''data:image/png;base64,BBBB'') 0
            (state_two_layers\<lparr> canvasScale := 2 / 10 \<rparr>))
       = snd (handleExport Rejected (Resolved ''data:image/png;base64,BBBB'') 0
            (state_two_layers\<lparr> canvasScale := 2 \<rparr>))"
proof -
  note h = state_two_layers_fields(2,3)
  from C3_export_config_ignores_zoom [OF h,
      of Rejected "Resolved ''data:image/png;base64,BBBB''" 0 "2 / 10" 2] h
  show ?thesis
    by (simp add: state_two_layers_fields(4) frame_square_def)
qed

text \<open>
  C7. Whatever the outcome of the two capture attempts, every call of \<open>toPng\<close> is
  made while the selection is empty, and the state after the export has the selection
  and the layers the export started with; when the export runs (an image is loaded
  and the workspace element exists) there is at least one such call. Both versions of
  \<open>handleExport\<close>.
\<close>

theorem C7_selection_cleared_and_restored:
  "selectedLayerId (fst (handleExport attempt1 attempt2 now st)) = selectedLayerId st
   \<and> selectedLayerId (fst (handleExport_2 attempt1 attempt2 now st)) = selectedLayerId st
   \<and> layers (fst (handleExport attempt1 attempt2 now st)) = layers st
   \<and> layers (fst (handleExport_2 attempt1 attempt2 now st)) = layers st
   \<and> list_all (\<lambda>(sel, cfg). sel = None)
        (captures_of (snd (handleExport attempt1 attempt2 now st)))
   \<and> list_all (\<lambda>(sel, cfg). sel = None)
        (captures_of (snd (handleExport_2 attempt1 attempt2 now st)))
   \<and> (workspaceRef st \<and> truthy (imageSrc st) \<longrightarrow>
        captures_of (snd (handleExport attempt1 attempt2 now st)) \<noteq> []
        \<and> captures_of (snd (handleExport_2 attempt1 attempt2 now st)) \<noteq> [])"
proof (cases "workspaceRef st \<and> truthy (imageSrc st)")
  case True
  then show ?thesis
    by (simp add: handleExport_state handleExport_2_state handleExport_captures
        handleExport_2_captures split: settled.split)
next
  case False
  then have "handleExport attempt1 attempt2 now st = (st, [])"
    and "handleExport_2 attempt1 attempt2 now st = (st, [])"
    by (rule handleExport_skipped)+
  with False show ?thesis by simp
qed

theorem C7_selection_cleared_and_restored_witness:
  "workspaceRef state_two_layers \<and> truthy (imageSrc state_two_layers)
   \<and> selectedLayerId (fst (handleExport Rejected Rejected 0 state_two_layers)) = Some ''t1''
   \<and> selectedLayerId (fst (handleExport (Resolved ''data:image/png;base64,BBBB'') Rejected 0
        state_two_layers)) = Some ''t1''
   \<and> selectedLayerId (fst (handleExport Rejected (Resolved ''data:image/png;base64,BBBB'') 0
        state_two_layers)) = Some ''t1''
   \<and> captures_of (snd (handleExport Rejected Rejected 0 state_two_layers)) \<noteq> []"
proof -
  note h = state_two_layers_fields(2,3)
  from C7_selection_cleared_and_restored [of Rejected Rejected 0 state_two_layers]
    C7_selection_cleared_and_restored
      [of "Resolved ''data:image/png;base64,BBBB''" Rejected 0 state_two_layers]
    C7_selection_cleared_and_restored
      [of Rejected "Resolved ''data:image/png;base64,BBBB''" 0 state_two_layers] h
  show ?thesis
    by (simp add: state_two_layers_fields(1))
qed

text \<open>
  C8. An export that runs (an image is loaded and the workspace element exists) calls
  \<open>toPng\<close> once, with \<open>cacheBust: false\<close>, when that call resolves, and twice, the
  second time with \<open>cacheBust: true\<close>, when it rejects; an export that does not run
  makes no call, and there is never a third call. Both versions of \<open>handleExport\<close>.
\<close>

theorem C8_at_most_one_retry:
  "map snd (captures_of (snd (handleExport attempt1 attempt2 now st)))
     = (if \<not> workspaceRef st \<or> \<not> truthy (imageSrc st) then []
        else if attempt1 = Rejected
        then [(commonConfig st)\<lparr> cacheBust := Some False \<rparr>,
              (commonConfig st)\<lparr> cacheBust := Some True \<rparr>]
        else [(commonConfig st)\<lparr> cacheBust := Some False \<rparr>])
   \<and> map snd (captures_of (snd (handleExport_2 attempt1 attempt2 now st)))
       = map snd (captures_of (snd (handleExport attempt1 attempt2 now st)))
   \<and> length (captures_of (snd (handleExport attempt1 attempt2 now st))) \<le> 2"
proof (cases "workspaceRef st \<and> truthy (imageSrc st)")
  case True
  then show ?thesis
    by (cases attempt1) (simp_all add: handleExport_captures handleExport_2_captures)
next
  case False
  then have "handleExport attempt1 attempt2 now st = (st, [])"
    and "handleExport_2 attempt1 attempt2 now st = (st, [])"
    by (rule handleExport_skipped)+
  with False show ?thesis by auto
qed

theorem C8_at_most_one_retry_witness:
  "workspaceRef state_two_layers \<and> truthy (imageSrc state_two_layers)
   \<and> map cacheBust (map snd (captures_of (snd
        (handleExport Rejected Rejected 0 state_two_layers)))) = [Some False, Some True]
   \<and> map cacheBust (map snd (captures_of (snd
        (handleExport (Resolved ''data:image/png;base64,BBBB'') Rejected 0 state_two_layers))))
       = [Some False]"
proof -
  note h = state_two_layers_fields(2,3)
  from C8_at_most_one_retry [of Rejected Rejected 0 state_two_layers]
    C8_at_most_one_retry
      [of "Resolved ''data:image/png;base64,BBBB''" Rejected 0 state_two_layers] h
  show ?thesis by simp
qed

section \<open>Caption service\<close>

text \<open>
  C10. With or without a topic, \<open>generateCaption\<close> resolves to a string: whenever the
  body of its \<open>try\<close> block fails, in particular without an API key and when the
  request rejects, it resolves to the fallback caption.
\<close>

theorem C10_caption_never_rejects:
  "(\<exists>caption. fst (generateCaption apiKey generateContent topic) = Inr caption)
   \<and> (\<forall>e. generateCaption_try apiKey generateContent topic = Inl e \<longrightarrow>
          fst (generateCaption apiKey generateContent topic) = Inr FALLBACK_CAPTION)
   \<and> (\<not> truthy apiKey \<longrightarrow>
          fst (generateCaption apiKey generateContent topic) = Inr FALLBACK_CAPTION)
   \<and> (\<forall>k e. apiKey = Some k \<and> generateContent k (captionPrompt topic) = Inl e \<longrightarrow>
          fst (generateCaption apiKey generateContent topic) = Inr FALLBACK_CAPTION)"
  by (auto simp: generateCaption_def generateCaption_try_def getClient_def
      split: sum.splits option.splits)

theorem C10_caption_never_rejects_witness:
  "\<not> truthy None
   \<and> fst (generateCaption None (\<lambda>ai prompt. Inr (Some ''hello'')) (Some ''sea''))
       = Inr FALLBACK_CAPTION
   \<and> fst (generateCaption (Some ''key'') (\<lambda>ai prompt. Inl ApiError) None)
       = Inr FALLBACK_CAPTION"
proof -
  have h: "\<not> truthy None" by (simp add: truthy_def)
  from C10_caption_never_rejects [of None "\<lambda>ai prompt. Inr (Some ''hello'')" "Some ''sea''"]
    C10_caption_never_rejects [of "Some ''key''" "\<lambda>ai prompt. Inl ApiError" None] h
  show ?thesis by simp
qed

section \<open>Resizing a text layer\<close>

lemma resize_step_text:
  assumes "layer_type l = TEXT" "style l \<noteq> None"
  shows "layer_type (mergeLayer l (onResize l cs d w h px py)) = TEXT
       \<and> style (mergeLayer l (onResize l cs d w h px py)) \<noteq> None"
proof -
  from assms obtain s where s: "style l = Some s" by auto
  show ?thesis
    by (cases "resizeStartData cs") (simp_all add: override_def onResize_style s assms(1))
qed

lemma resizeMoves_text:
  assumes "layer_type l = TEXT" "style l \<noteq> None"
  shows "layer_type (resizeMoves cs ms l) = TEXT \<and> style (resizeMoves cs ms l) \<noteq> None"
  using assms
proof (induction ms arbitrary: l)
  case Nil
  then show ?case by simp
next
  case (Cons m ms)
  obtain d w h px py where m: "m = ResizeMove d w h px py" by (cases m)
  from Cons.prems have "layer_type (mergeLayer l (onResize l cs d w h px py)) = TEXT
       \<and> style (mergeLayer l (onResize l cs d w h px py)) \<noteq> None"
    by (rule resize_step_text)
  then show ?case using Cons.IH m by simp
qed

lemma resizeMoves_snoc:
  "resizeMoves cs (ms @ [ResizeMove d w h px py]) l
     = mergeLayer (resizeMoves cs ms l) (onResize (resizeMoves cs ms l) cs d w h px py)"
proof (induction ms arbitrary: l)
  case Nil
  show ?case by simp
next
  case (Cons m ms)
  then show ?case by (cases m) simp
qed

lemma onResizeStart_text:
  assumes "layer_type l = TEXT" "style l = Some s"
  shows "resizeStartData (onResizeStart l cs)
         = Some \<lparr> rs_width = layer_width l, rs_height = layer_height l,
                  rs_fontSize = fontSize s \<rparr>"
  using assms by (simp add: onResizeStart_def)

text \<open>
  What one update of the gesture does to the stored layer: in a store whose layers
  have distinct ids, \<open>updateLayer\<close> replaces the layer by its merge with the update.
\<close>

lemma updateLayer_find:
  assumes "l \<in> set (layers st)" "distinct (map layer_id (layers st))" "p_id u = None"
  shows "find (\<lambda>x. layer_id x = layer_id l) (layers (updateLayer (layer_id l) u st))
         = Some (mergeLayer l u)"
proof -
  have "find (\<lambda>x. layer_id x = layer_id l)
          (map (\<lambda>x. if layer_id x = layer_id l then mergeLayer x u else x) ls)
        = Some (mergeLayer l u)"
    if "l \<in> set ls" "distinct (map layer_id ls)" for ls
    using that assms(3)
  proof (induction ls)
    case Nil
    then show ?case by simp
  next
    case (Cons x xs)
    show ?case
    proof (cases "x = l")
      case True
      with Cons.prems(3) show ?thesis by (simp add: override_def)
    next
      case False
      with Cons.prems have "l \<in> set xs" and "layer_id x \<noteq> layer_id l"
        by auto
      with Cons show ?thesis by simp
    qed
  qed
  with assms(1,2) show ?thesis by (simp add: updateLayer_def)
qed

text \<open>
  C1. Take a text layer with a font size \<open>startFontSize\<close> and a height other than 0,
  and a resize gesture on it that has gone through the moves \<open>ms\<close>. After one more
  move to the height \<open>h\<close>: from a corner handle the font size is
  \<open>max 12 (startFontSize * (h / startHeight))\<close>, with the font size and the height the
  layer had when the gesture started, whatever the moves in between did; from an edge
  handle the font size is what it was before the move.
\<close>

theorem C1_text_resize_font_size:
  assumes "layer_type l = TEXT" "style l = Some s" "fontSize s = Some startFontSize"
    and "layer_height l \<noteq> 0"
  shows "(isCorner d \<longrightarrow>
            layerFontSize (resizeGesture cs (ms @ [ResizeMove d w h px py]) l)
              = Some (max 12 (startFontSize * (of_int h / layer_height l))))
       \<and> (d \<in> set [''top'', ''bottom'', ''left'', ''right''] \<longrightarrow>
            layerFontSize (resizeGesture cs (ms @ [ResizeMove d w h px py]) l)
              = layerFontSize (resizeGesture cs ms l))"
proof -
  define cs1 where "cs1 = onResizeStart l cs"
  define l1 where "l1 = resizeMoves cs1 ms l"
  have rs: "resizeStartData cs1
         = Some \<lparr> rs_width = layer_width l, rs_height = layer_height l,
                  rs_fontSize = Some startFontSize \<rparr>"
    using assms(1-3) by (simp add: cs1_def onResizeStart_text)
  have "layer_type l1 = TEXT \<and> style l1 \<noteq> None"
    unfolding l1_def using assms(1,2) by (intro resizeMoves_text) simp_all
  then obtain s1 where l1: "layer_type l1 = TEXT" "style l1 = Some s1" by auto
  have step: "resizeGesture cs (ms @ [ResizeMove d w h px py]) l
              = mergeLayer l1 (onResize l1 cs1 d w h px py)"
    by (simp add: resizeGesture_def resizeMoves_snoc cs1_def l1_def)
  have prev: "resizeGesture cs ms l = l1"
    by (simp add: resizeGesture_def cs1_def l1_def)
  have corner: "layerFontSize (mergeLayer l1 (onResize l1 cs1 d w h px py))
              = Some (max 12 (startFontSize * (of_int h / layer_height l)))" if "isCorner d"
    using that l1 rs assms(4)
    by (simp add: layerFontSize_def onResize_style override_def scaledFontSize_def)
  have edge: "layerFontSize (mergeLayer l1 (onResize l1 cs1 d w h px py)) = layerFontSize l1"
    if "d \<in> set [''top'', ''bottom'', ''left'', ''right'']"
  proof -
    from that have "\<not> isCorner d" by (auto simp: isCorner_def)
    with l1 rs show ?thesis
      by (simp add: layerFontSize_def onResize_style override_def)
  qed
  from corner edge show ?thesis unfolding step prev by blast
qed

text \<open>
  The example of the specification: from height 150 and font size 42, the corner
  \<open>bottomRight\<close> dragged to height 225 gives 63, also after a move to 180 in between,
  and the edge \<open>bottom\<close> leaves 42.
\<close>

theorem C1_text_resize_font_size_witness:
  "layer_type text_layer_150 = TEXT \<and> style text_layer_150 = Some INITIAL_TEXT_STYLE
   \<and> fontSize INITIAL_TEXT_STYLE = Some 42 \<and> layer_height text_layer_150 \<noteq> 0
   \<and> layerFontSize (resizeGesture component_initial
        [ResizeMove ''bottomRight'' 480 180 340 465, ResizeMove ''bottomRight'' 600 225 340 465]
        text_layer_150) = Some 63
   \<and> layerFontSize (resizeGesture component_initial [ResizeMove ''bottom'' 400 225 340 465]
        text_layer_150) = Some 42"
proof -
  have h1: "layer_type text_layer_150 = TEXT"
    and h2: "style text_layer_150 = Some INITIAL_TEXT_STYLE"
    and h4: "layer_height text_layer_150 \<noteq> 0"
    by (simp_all add: example_layers_kinds)
  have h3: "fontSize INITIAL_TEXT_STYLE = Some 42" by (simp add: INITIAL_TEXT_STYLE_def)
  have c: "isCorner ''bottomRight''" by (simp add: isCorner_def)
  from C1_text_resize_font_size [OF h1 h2 h3 h4, of "''bottomRight''" component_initial
      "[ResizeMove ''bottomRight'' 480 180 340 465]" 600 225 340 465] c
  have corner: "layerFontSize (resizeGesture component_initial
        [ResizeMove ''bottomRight'' 480 180 340 465, ResizeMove ''bottomRight'' 600 225 340 465]
        text_layer_150) = Some 63"
    by (simp add: example_layers_kinds)
  from C1_text_resize_font_size [OF h1 h2 h3 h4, of "''bottom''" component_initial
      "[]" 400 225 340 465]
  have "layerFontSize (resizeGesture component_initial [ResizeMove ''bottom'' 400 225 340 465]
        text_layer_150) = layerFontSize (resizeGesture component_initial [] text_layer_150)"
    by simp
  also have "\<dots> = Some 42"
    by (simp add: resizeGesture_def layerFontSize_def h2 h3)
  finally show ?thesis using corner h1 h2 h3 h4 by simp
qed

section \<open>Rotation snapping\<close>

text \<open>The double remainder of \<open>handleMove\<close> is the representative in \<open>[0, 360)\<close>.\<close>

lemma normalizedRot_mod: "normalizedRot r = r mod 360"
proof (cases "0 \<le> r")
  case True
  then have "js_rem r 360 = r mod 360" by (simp add: js_rem_def)
  moreover have "0 \<le> r mod 360 + 360" by (simp add: add_nonneg_nonneg)
  ultimately show ?thesis by (simp add: normalizedRot_def js_rem_def)
next
  case False
  then have a: "js_rem r 360 = - ((- r) mod 360)" by (simp add: js_rem_def)
  have "(- r) mod 360 < 360" by simp
  then have "0 \<le> - ((- r) mod 360) + 360" by linarith
  then have "js_rem (- ((- r) mod 360) + 360) 360 = (- ((- r) mod 360) + 360) mod 360"
    by (simp add: js_rem_def)
  then have "normalizedRot r = (- ((- r) mod 360) + 360) mod 360"
    unfolding normalizedRot_def a .
  also have "\<dots> = (- ((- r) mod 360)) mod 360" by simp
  also have "\<dots> = (- (- r)) mod 360" by (simp only: mod_minus_eq)
  finally show ?thesis by simp
qed

lemma Math_round_div360: "Math_round (of_int r / 360) = (r + 180) div 360"
proof -
  have "(of_int r :: real) / 360 + 1 / 2 = of_int (r + 180) / of_int 360" by simp
  then show ?thesis unfolding Math_round_def by (simp only: floor_divide_of_int_eq)
qed

lemma snapRotation_int:
  "snapRotation r =
     (let n = r mod 360; t = ((r + 180) div 360) * 360 in
      if n < 5 \<or> n > 355 then t
      else if \<bar>n - 90\<bar> < 5 then t + 90
      else if \<bar>n - 180\<bar> < 5 then t + 180
      else if \<bar>n - 270\<bar> < 5 then t + 270
      else r)"
  by (simp add: snapRotation_def normalizedRot_mod Math_round_div360 Let_def)


text \<open>The two examples of the specification: 88 is stored as 90, and 84 stays.\<close>

lemma snapRotation_88_84: "snapRotation 88 = 90 \<and> snapRotation 84 = 84"
  by (simp add: snapRotation_def normalizedRot_def js_rem_def Math_round_def)

text \<open>
  The extent of the added turn, on whole degrees. Let \<open>m\<close> be the multiple of 90
  nearest to the raw rotation \<open>r\<close>. When \<open>r\<close> is less than 5 degrees from \<open>m\<close>, the
  stored rotation is \<open>m\<close>, except that it is \<open>m + 360\<close> when \<open>m\<close> is 270 modulo 360, and
  when \<open>m\<close> is 180 modulo 360 and \<open>r\<close> is not below it: \<open>Math.round\<close> of \<open>r / 360\<close> counts
  a turn from the half turn on. Otherwise the stored rotation is \<open>r\<close>.
\<close>

lemma turns_of:
  fixes q n :: int
  assumes "0 \<le> n" "n < 360"
  shows "(360 * q + n + 180) div 360 = (if n < 180 then q else q + 1)"
proof (cases "n < 180")
  case True
  with assms have "(360 * q + n + 180) div 360 = q"
    by (intro int_div_pos_eq [where r = "n + 180"]) simp_all
  with True show ?thesis by simp
next
  case False
  with assms have "(360 * q + n + 180) div 360 = q + 1"
    by (intro int_div_pos_eq [where r = "n - 180"]) simp_all
  with False show ?thesis by simp
qed

lemma quarter_of:
  fixes q n k :: int
  assumes "90 * k \<le> n + 45" "n + 45 < 90 * k + 90"
  shows "nearest_multiple_of_90 (360 * q + n) = 360 * q + 90 * k"
proof -
  from assms have "(360 * q + n + 45) div 90 = 4 * q + k"
    by (intro int_div_pos_eq [where r = "n + 45 - 90 * k"]) simp_all
  then show ?thesis by (simp add: nearest_multiple_of_90_def)
qed

lemma quarter_mod:
  fixes q k :: int
  assumes "0 \<le> k" "k \<le> 4"
  shows "(360 * q + 90 * k) mod 360 = (if k = 4 then 0 else 90 * k)"
proof (cases "k = 4")
  case True
  have "(360 * q + 90 * 4) mod 360 = (0::int)"
    by (intro int_mod_pos_eq [where q = "q + 1"]) simp_all
  with True show ?thesis by simp
next
  case False
  with assms have "(360 * q + 90 * k) mod 360 = 90 * k"
    by (intro int_mod_pos_eq [where q = q]) simp_all
  with False show ?thesis by simp
qed

lemma snap_core:
  fixes n q k r :: int
  assumes "0 \<le> n" "n < 360" "90 * k \<le> n + 45" "n + 45 < 90 * k + 90"
  shows "(if n < 5 \<or> n > 355 then (if n < 180 then q else q + 1) * 360
       else if \<bar>n - 90\<bar> < 5 then (if n < 180 then q else q + 1) * 360 + 90
       else if \<bar>n - 180\<bar> < 5 then (if n < 180 then q else q + 1) * 360 + 180
       else if \<bar>n - 270\<bar> < 5 then (if n < 180 then q else q + 1) * 360 + 270
       else r)
    = (if \<bar>n - 90 * k\<bar> < 5
       then (if (if k = 4 then 0 else 90 * k) = 270
                \<or> ((if k = 4 then 0 else 90 * k) = 180 \<and> 90 * k \<le> n)
             then 360 * q + 90 * k + 360 else 360 * q + 90 * k)
       else r)"
proof -
  from assms consider "k = 0" | "k = 1" | "k = 2" | "k = 3" | "k = 4" by linarith
  then show ?thesis
  proof cases
    case 1
    with assms show ?thesis by (auto simp: abs_if)
  next
    case 2
    with assms show ?thesis by (auto simp: abs_if)
  next
    case 3
    with assms show ?thesis by (auto simp: abs_if)
  next
    case 4
    with assms show ?thesis by (auto simp: abs_if)
  next
    case 5
    with assms show ?thesis by (auto simp: abs_if)
  qed
qed

lemma snapRotation_extent:
  "snapRotation r =
     (let m = nearest_multiple_of_90 r in
      if \<bar>r - m\<bar> < 5
      then (if m mod 360 = 270 \<or> (m mod 360 = 180 \<and> m \<le> r) then m + 360 else m)
      else r)"
proof -
  define q where "q = r div 360"
  define n where "n = r mod 360"
  define k where "k = (n + 45) div 90"
  have r: "r = 360 * q + n" and n: "0 \<le> n" "n < 360"
    by (simp_all add: q_def n_def)
  have "90 * k + (n + 45) mod 90 = n + 45" unfolding k_def by simp
  moreover have "0 \<le> (n + 45) mod 90" "(n + 45) mod 90 < 90" by simp_all
  ultimately have k: "90 * k \<le> n + 45" "n + 45 < 90 * k + 90" by linarith+
  from k n have k04: "0 \<le> k" "k \<le> 4" by linarith+
  have nm: "(360 * q + n) mod 360 = n"
    using n by (intro int_mod_pos_eq [where q = q]) simp_all
  have t: "(360 * q + n + 180) div 360 = (if n < 180 then q else q + 1)"
    using n by (rule turns_of)
  have m: "nearest_multiple_of_90 (360 * q + n) = 360 * q + 90 * k"
    using k by (rule quarter_of)
  have mm: "(360 * q + 90 * k) mod 360 = (if k = 4 then 0 else 90 * k)"
    using k04 by (rule quarter_mod)
  have d: "\<bar>360 * q + n - (360 * q + 90 * k)\<bar> = \<bar>n - 90 * k\<bar>"
    and le: "(360 * q + 90 * k \<le> 360 * q + n) = (90 * k \<le> n)"
    by simp_all
  show ?thesis
    unfolding r snapRotation_int Let_def nm t m mm d le
    using n k by (rule snap_core)
qed

end
